theory Spec2Isabelle
  imports Complex_Main "HOL-Library.Sublist" "HOL-Library.AList"
begin

section \<open>DarkNet (pytorch/models/darknet.py): the network as a module tree\<close>

text \<open>
  The source assembles a tree of framework layers. The tree is modelled as a datatype:
  one constructor per layer class the source instantiates, with the constructor arguments
  the source passes, and the two classes of the source itself (\<open>DarkConv\<close> and
  \<open>DarkNet\<close>) with their children in declaration order. A \<open>Sequential\<close> keeps its
  children as an association list in insertion order, as the framework's ordered
  dictionary of submodules does. In a tree that has been built, channel counts, kernel
  sizes and paddings are natural numbers; the kernel size of the average pooling is the
  integer the caller passed, since its constructor stores it unchecked.

  The constructor is given twice. \<open>DarkNet_init\<close> and the functions it calls are the
  source on sizes that are natural numbers, where no layer constructor of the framework
  raises. \<open>DarkNet_init_int\<close> and the functions it calls are the same source on Python
  integers, where the framework's \<open>Conv2d\<close> and \<open>BatchNorm2d\<close> raise \<open>RuntimeError\<close>
  on a negative size (they allocate a tensor of that size). \<open>DarkNet_init_int_eq\<close> below
  proves that the second is the first behind a test that no size is negative.
\<close>

datatype nn_module =
    Conv2d (conv_in: nat) (conv_out: nat) (conv_kernel: nat) (conv_padding: nat) (conv_bias: bool)
  | BatchNorm2d nat
  | LeakyReLU rat bool
  | MaxPool2d nat nat
  | AvgPool2d int nat
  | DarkConv nn_module nn_module nn_module
  | Sequential "(string \<times> nn_module) list"
  | DarkNet nn_module nn_module

text \<open>
  The exceptions: the \<open>ValueError\<close> of the source with its message, the \<open>TypeError\<close> of
  a call with a keyword argument the callee does not take, the \<open>RuntimeError\<close> of a
  framework layer constructor, and \<open>ShapeError\<close> for every failure of a framework layer
  in the forward pass.
\<close>

datatype error = ValueError string | TypeError | RuntimeError | ShapeError

subsection \<open>Names of submodules\<close>

text \<open>
  \<open>"unit{}".format(j + 1)\<close> prints a non-negative integer in decimal, without leading
  zeros.
\<close>

definition digits :: string where
  "digits = ''0123456789''"

fun str_nat :: "nat \<Rightarrow> string" where
  "str_nat n = (if n < 10 then [digits ! n] else str_nat (n div 10) @ [digits ! (n mod 10)])"

declare str_nat.simps [simp del]

text \<open>
  \<open>add_module(name, m)\<close> stores \<open>m\<close> under \<open>name\<close> in the ordered dictionary of
  children: a new name is appended, an existing name keeps its position and gets the new
  module.
\<close>

definition add_module :: "string \<Rightarrow> nn_module \<Rightarrow> (string \<times> nn_module) list \<Rightarrow> (string \<times> nn_module) list" where
  "add_module name m kids = AList.update name m kids"

subsection \<open>Convolution units\<close>

definition DarkConv_init :: "nat \<Rightarrow> nat \<Rightarrow> nat \<Rightarrow> nat \<Rightarrow> nn_module" where
  "DarkConv_init in_channels out_channels kernel_size padding =
     DarkConv (Conv2d in_channels out_channels kernel_size padding False)
              (BatchNorm2d out_channels)
              (LeakyReLU (1 / 10) True)"

definition dark_conv1x1 :: "nat \<Rightarrow> nat \<Rightarrow> nn_module" where
  "dark_conv1x1 in_channels out_channels = DarkConv_init in_channels out_channels 1 0"

definition dark_conv3x3 :: "nat \<Rightarrow> nat \<Rightarrow> nn_module" where
  "dark_conv3x3 in_channels out_channels = DarkConv_init in_channels out_channels 3 1"

definition dark_convYxY :: "nat \<Rightarrow> nat \<Rightarrow> bool \<Rightarrow> nn_module" where
  "dark_convYxY in_channels out_channels pointwise =
     (if pointwise then dark_conv1x1 in_channels out_channels
      else dark_conv3x3 in_channels out_channels)"

subsection \<open>The constructor of DarkNet, on natural-number sizes\<close>

text \<open>
  The inner loop of \<open>DarkNet.__init__\<close> over \<open>enumerate(channels_per_stage)\<close>. The state
  is the stage built so far and the running \<open>in_channels\<close>; \<open>n\<close> is
  \<open>len(channels_per_stage)\<close> and \<open>j\<close> the index of the next unit. Python's \<open>^\<close> on two
  booleans is exclusive or, here \<open>\<noteq>\<close>.
\<close>

fun units_loop ::
  "bool \<Rightarrow> nat \<Rightarrow> nat \<Rightarrow> nat list \<Rightarrow> (string \<times> nn_module) list \<times> nat \<Rightarrow> (string \<times> nn_module) list \<times> nat" where
  "units_loop odd_pointwise n j [] (stage, in_channels) = (stage, in_channels)"
| "units_loop odd_pointwise n j (out_channels # rest) (stage, in_channels) =
     units_loop odd_pointwise n (j + 1) rest
       (add_module (''unit'' @ str_nat (j + 1))
          (dark_convYxY in_channels out_channels
             (n > 1 \<and> \<not> (((j + 1) mod 2 = 1) \<noteq> odd_pointwise)))
          stage,
        out_channels)"

text \<open>
  The outer loop over \<open>enumerate(channels)\<close>. \<open>len_channels\<close> is \<open>len(channels)\<close>, which
  is at least 1 whenever the body runs, so \<open>len_channels - 1\<close> is the source's value.
\<close>

fun stages_loop ::
  "bool \<Rightarrow> nat \<Rightarrow> nat \<Rightarrow> nat list list \<Rightarrow> (string \<times> nn_module) list \<times> nat \<Rightarrow> (string \<times> nn_module) list \<times> nat" where
  "stages_loop odd_pointwise len_channels i [] (features, in_channels) = (features, in_channels)"
| "stages_loop odd_pointwise len_channels i (channels_per_stage # rest) (features, in_channels) =
     (case units_loop odd_pointwise (length channels_per_stage) 0 channels_per_stage ([], in_channels) of
        (stage, in_channels') \<Rightarrow>
          stages_loop odd_pointwise len_channels (i + 1) rest
            (add_module (''stage'' @ str_nat (i + 1))
               (Sequential
                  (if i \<noteq> len_channels - 1
                   then add_module (''pool'' @ str_nat (i + 1)) (MaxPool2d 2 2) stage
                   else stage))
               features,
             in_channels'))"

definition DarkNet_init :: "nat list list \<Rightarrow> bool \<Rightarrow> int \<Rightarrow> bool \<Rightarrow> nat \<Rightarrow> nat \<Rightarrow> nn_module" where
  "DarkNet_init channels odd_pointwise avg_pool_size cls_activ in_channels num_classes =
     (case stages_loop odd_pointwise (length channels) 0 channels ([], in_channels) of
        (features, in_channels') \<Rightarrow>
          DarkNet (Sequential features)
            (Sequential
               (add_module ''final_pool'' (AvgPool2d avg_pool_size 1)
                  ((if cls_activ then add_module ''final_activ'' (LeakyReLU (1 / 10) True) else id)
                     (add_module ''final_conv'' (Conv2d in_channels' num_classes 1 0 True) [])))))"

subsection \<open>The constructor on Python integers\<close>

text \<open>
  \<open>nn.Conv2d(in_channels, out_channels, ...)\<close> allocates a weight of shape
  (out, in, k, k) and \<open>nn.BatchNorm2d(num_features)\<close> a scale of shape (features); a
  negative dimension raises \<open>RuntimeError\<close>. The kernel sizes and paddings are the
  literals of the source.
\<close>

definition Conv2d_int :: "int \<Rightarrow> int \<Rightarrow> nat \<Rightarrow> nat \<Rightarrow> bool \<Rightarrow> error + nn_module" where
  "Conv2d_int in_channels out_channels kernel_size padding bias =
     (if in_channels < 0 \<or> out_channels < 0 then Inl RuntimeError
      else Inr (Conv2d (nat in_channels) (nat out_channels) kernel_size padding bias))"

definition BatchNorm2d_int :: "int \<Rightarrow> error + nn_module" where
  "BatchNorm2d_int num_features =
     (if num_features < 0 then Inl RuntimeError else Inr (BatchNorm2d (nat num_features)))"

definition DarkConv_init_int :: "int \<Rightarrow> int \<Rightarrow> nat \<Rightarrow> nat \<Rightarrow> error + nn_module" where
  "DarkConv_init_int in_channels out_channels kernel_size padding =
     (case Conv2d_int in_channels out_channels kernel_size padding False of
        Inl e \<Rightarrow> Inl e
      | Inr conv \<Rightarrow>
          (case BatchNorm2d_int out_channels of
             Inl e \<Rightarrow> Inl e
           | Inr bn \<Rightarrow> Inr (DarkConv conv bn (LeakyReLU (1 / 10) True))))"

definition dark_conv1x1_int :: "int \<Rightarrow> int \<Rightarrow> error + nn_module" where
  "dark_conv1x1_int in_channels out_channels = DarkConv_init_int in_channels out_channels 1 0"

definition dark_conv3x3_int :: "int \<Rightarrow> int \<Rightarrow> error + nn_module" where
  "dark_conv3x3_int in_channels out_channels = DarkConv_init_int in_channels out_channels 3 1"

definition dark_convYxY_int :: "int \<Rightarrow> int \<Rightarrow> bool \<Rightarrow> error + nn_module" where
  "dark_convYxY_int in_channels out_channels pointwise =
     (if pointwise then dark_conv1x1_int in_channels out_channels
      else dark_conv3x3_int in_channels out_channels)"

fun units_loop_int ::
  "bool \<Rightarrow> nat \<Rightarrow> nat \<Rightarrow> int list \<Rightarrow> (string \<times> nn_module) list \<times> int \<Rightarrow>
     error + (string \<times> nn_module) list \<times> int" where
  "units_loop_int odd_pointwise n j [] (stage, in_channels) = Inr (stage, in_channels)"
| "units_loop_int odd_pointwise n j (out_channels # rest) (stage, in_channels) =
     (case dark_convYxY_int in_channels out_channels
             (n > 1 \<and> \<not> (((j + 1) mod 2 = 1) \<noteq> odd_pointwise)) of
        Inl e \<Rightarrow> Inl e
      | Inr u \<Rightarrow>
          units_loop_int odd_pointwise n (j + 1) rest
            (add_module (''unit'' @ str_nat (j + 1)) u stage, out_channels))"

fun stages_loop_int ::
  "bool \<Rightarrow> nat \<Rightarrow> nat \<Rightarrow> int list list \<Rightarrow> (string \<times> nn_module) list \<times> int \<Rightarrow>
     error + (string \<times> nn_module) list \<times> int" where
  "stages_loop_int odd_pointwise len_channels i [] (features, in_channels) =
     Inr (features, in_channels)"
| "stages_loop_int odd_pointwise len_channels i (channels_per_stage # rest) (features, in_channels) =
     (case units_loop_int odd_pointwise (length channels_per_stage) 0 channels_per_stage
             ([], in_channels) of
        Inl e \<Rightarrow> Inl e
      | Inr (stage, in_channels') \<Rightarrow>
          stages_loop_int odd_pointwise len_channels (i + 1) rest
            (add_module (''stage'' @ str_nat (i + 1))
               (Sequential
                  (if i \<noteq> len_channels - 1
                   then add_module (''pool'' @ str_nat (i + 1)) (MaxPool2d 2 2) stage
                   else stage))
               features,
             in_channels'))"

definition DarkNet_init_int ::
  "int list list \<Rightarrow> bool \<Rightarrow> int \<Rightarrow> bool \<Rightarrow> int \<Rightarrow> int \<Rightarrow> error + nn_module" where
  "DarkNet_init_int channels odd_pointwise avg_pool_size cls_activ in_channels num_classes =
     (case stages_loop_int odd_pointwise (length channels) 0 channels ([], in_channels) of
        Inl e \<Rightarrow> Inl e
      | Inr (features, in_channels') \<Rightarrow>
          (case Conv2d_int in_channels' num_classes 1 0 True of
             Inl e \<Rightarrow> Inl e
           | Inr final_conv \<Rightarrow>
               Inr (DarkNet (Sequential features)
                      (Sequential
                         (add_module ''final_pool'' (AvgPool2d avg_pool_size 1)
                            ((if cls_activ
                              then add_module ''final_activ'' (LeakyReLU (1 / 10) True)
                              else id)
                               (add_module ''final_conv'' final_conv [])))))))"

subsection \<open>The variant factory\<close>

text \<open>
  \<open>get_darknet(version, pretrained, **kwargs)\<close> passes \<open>**kwargs\<close> on to the
  constructor, next to the four arguments it sets itself. \<open>kwargs\<close> is a dictionary from
  names to integers, given as an association list (the first binding of a name counts).
  The constructor takes two more parameters, \<open>in_channels\<close> (default 3) and
  \<open>num_classes\<close> (default 1000); a call with any other name in \<open>kwargs\<close>, also one of
  the four the caller sets, raises \<open>TypeError\<close> before the body of the constructor runs.
\<close>

definition kwarg :: "(string \<times> int) list \<Rightarrow> string \<Rightarrow> int \<Rightarrow> int" where
  "kwarg kwargs name dflt = (case map_of kwargs name of None \<Rightarrow> dflt | Some v \<Rightarrow> v)"

definition DarkNet_call ::
  "int list list \<Rightarrow> bool \<Rightarrow> int \<Rightarrow> bool \<Rightarrow> (string \<times> int) list \<Rightarrow> error + nn_module" where
  "DarkNet_call channels odd_pointwise avg_pool_size cls_activ kwargs =
     (if list_ex (\<lambda>name. name \<noteq> ''in_channels'' \<and> name \<noteq> ''num_classes'') (map fst kwargs)
      then Inl TypeError
      else DarkNet_init_int channels odd_pointwise avg_pool_size cls_activ
             (kwarg kwargs ''in_channels'' 3) (kwarg kwargs ''num_classes'' 1000))"

definition get_darknet :: "string \<Rightarrow> bool \<Rightarrow> (string \<times> int) list \<Rightarrow> error + nn_module" where
  "get_darknet version pretrained kwargs =
     (case
        (if version = ''ref'' then
           Inr ([[16], [32], [64], [128], [256], [512], [1024]], False, 3, True)
         else if version = ''tiny'' then
           Inr ([[16], [32], [16, 128, 16, 128], [32, 256, 32, 256], [64, 512, 64, 512, 128]],
                True, 14, False)
         else if version = ''19'' then
           Inr ([[32], [64], [128, 64, 128], [256, 128, 256], [512, 256, 512, 256, 512],
                 [1024, 512, 1024, 512, 1024]], False, 7, False)
         else Inl (ValueError (''Unsupported DarkNet version '' @ version)))
      of
        Inl e \<Rightarrow> Inl e
      | Inr (channels, odd_pointwise, avg_pool_size, cls_activ) \<Rightarrow>
          if pretrained then Inl (ValueError ''Pretrained model is not supported'')
          else DarkNet_call channels odd_pointwise avg_pool_size cls_activ kwargs)"

text \<open>The three variants with default arguments, as \<open>_test\<close> builds them.\<close>

definition darknet_ref :: "error + nn_module" where
  "darknet_ref = get_darknet ''ref'' False []"

definition darknet_tiny :: "error + nn_module" where
  "darknet_tiny = get_darknet ''tiny'' False []"

definition darknet19 :: "error + nn_module" where
  "darknet19 = get_darknet ''19'' False []"

subsection \<open>Enumerating modules and parameters\<close>

text \<open>
  \<open>named_modules()\<close> walks the tree in pre-order and yields each module with its dotted
  path: the root has the empty path, and a child's path is the parent's path, a dot unless
  the parent's path is empty, and the child's name.
\<close>

definition submodule_prefix :: "string \<Rightarrow> string \<Rightarrow> string" where
  "submodule_prefix pfx name = pfx @ (if pfx = [] then [] else ''.'') @ name"

fun named_modules :: "string \<Rightarrow> nn_module \<Rightarrow> (string \<times> nn_module) list"
  and named_children :: "string \<Rightarrow> (string \<times> nn_module) list \<Rightarrow> (string \<times> nn_module) list" where
  "named_modules pfx (DarkConv conv bn activ) =
     (pfx, DarkConv conv bn activ) #
       named_modules (submodule_prefix pfx ''conv'') conv @
       named_modules (submodule_prefix pfx ''bn'') bn @
       named_modules (submodule_prefix pfx ''activ'') activ"
| "named_modules pfx (Sequential kids) =
     (pfx, Sequential kids) # named_children pfx kids"
| "named_modules pfx (DarkNet features output) =
     (pfx, DarkNet features output) #
       named_modules (submodule_prefix pfx ''features'') features @
       named_modules (submodule_prefix pfx ''output'') output"
| "named_modules pfx (Conv2d ic oc k p b) = [(pfx, Conv2d ic oc k p b)]"
| "named_modules pfx (BatchNorm2d n) = [(pfx, BatchNorm2d n)]"
| "named_modules pfx (LeakyReLU s ip) = [(pfx, LeakyReLU s ip)]"
| "named_modules pfx (MaxPool2d k s) = [(pfx, MaxPool2d k s)]"
| "named_modules pfx (AvgPool2d k s) = [(pfx, AvgPool2d k s)]"
| "named_children pfx [] = []"
| "named_children pfx ((name, m) # rest) =
     named_modules (submodule_prefix pfx name) m @ named_children pfx rest"

text \<open>
  The trainable parameters a layer owns, by name and shape: a convolution has a weight of
  shape (out, in, k, k) and, when built with a bias, a bias of shape (out); a batch
  normalisation has a scale and a shift of shape (features); activations and poolings have
  none. \<open>_test\<close> sums the products of the shapes.
\<close>

fun own_parameters :: "nn_module \<Rightarrow> (string \<times> nat list) list" where
  "own_parameters (Conv2d ic oc k p b) =
     (''weight'', [oc, ic, k, k]) # (if b then [(''bias'', [oc])] else [])"
| "own_parameters (BatchNorm2d n) = [(''weight'', [n]), (''bias'', [n])]"
| "own_parameters _ = []"

definition parameters :: "nn_module \<Rightarrow> (string \<times> nat list) list" where
  "parameters net = concat (map (\<lambda>(name, m). own_parameters m) (named_modules [] net))"

definition weight_count :: "nn_module \<Rightarrow> nat" where
  "weight_count net = sum_list (map (\<lambda>(name, shape). prod_list shape) (parameters net))"

subsection \<open>The initialisation pass\<close>

text \<open>
  The constructor ends with \<open>self._init_params()\<close>. The pass draws random weights, so
  the network value of the model holds no weights; the model of the pass records which
  initialiser it applies to which parameter of which module, in the order of the pass.
  \<open>'final_conv' in name\<close> is the substring test, here \<open>sublist\<close>.
\<close>

datatype initializer = Normal_init rat rat | Kaiming_uniform | Constant_init rat

fun init_module :: "string \<times> nn_module \<Rightarrow> (string \<times> string \<times> initializer) list" where
  "init_module (name, Conv2d ic oc k p b) =
     (name, ''weight'',
        if sublist ''final_conv'' name then Normal_init 0 (1 / 100) else Kaiming_uniform) #
     (if b then [(name, ''bias'', Constant_init 0)] else [])"
| "init_module (name, _) = []"

definition init_params :: "nn_module \<Rightarrow> (string \<times> string \<times> initializer) list" where
  "init_params net = concat (map init_module (named_modules [] net))"

subsection \<open>Shapes through the forward pass\<close>

text \<open>
  The forward pass is modelled on tensor shapes, with the framework's rules:
  \<^item> a convolution or pooling with kernel \<open>k\<close>, padding \<open>p\<close> and stride \<open>s\<close> maps an
    extent \<open>h\<close> to \<open>(h + 2p - k) div s + 1\<close> and fails when the padded extent is smaller
    than the kernel, or the kernel or the stride is not positive;
  \<^item> a convolution and a pooling take a batched input (n, c, h, w) or an unbatched one
    (c, h, w); a convolution fails on a wrong channel count and when it has no output
    channel, a pooling fails on an input without channels;
  \<^item> a batch normalisation takes a batched input only, fails on a wrong channel count
    and, in training mode (the mode of a fresh network), on a single value per channel;
  \<^item> \<open>x.view(x.size(0), -1)\<close> keeps the first dimension and flattens the rest, and fails
    on a tensor without elements.
\<close>

definition out_extent :: "nat \<Rightarrow> nat \<Rightarrow> nat \<Rightarrow> nat \<Rightarrow> error + nat" where
  "out_extent h k p s =
     (if k = 0 \<or> s = 0 \<or> h + 2 * p < k then Inl ShapeError
      else Inr ((h + 2 * p - k) div s + 1))"

definition window :: "nat list \<Rightarrow> nat \<Rightarrow> nat \<Rightarrow> nat \<Rightarrow> nat \<Rightarrow> nat \<Rightarrow> error + nat list" where
  "window lead h w k p s =
     (case out_extent h k p s of
        Inl e \<Rightarrow> Inl e
      | Inr h' \<Rightarrow> (case out_extent w k p s of
                     Inl e \<Rightarrow> Inl e
                   | Inr w' \<Rightarrow> Inr (lead @ [h', w'])))"

definition conv2d_shape :: "nat \<Rightarrow> nat \<Rightarrow> nat \<Rightarrow> nat \<Rightarrow> nat list \<Rightarrow> error + nat list" where
  "conv2d_shape ic oc k p x =
     (case x of
        [n, c, h, w] \<Rightarrow> if c \<noteq> ic \<or> oc = 0 then Inl ShapeError else window [n, oc] h w k p 1
      | [c, h, w] \<Rightarrow> if c \<noteq> ic \<or> oc = 0 then Inl ShapeError else window [oc] h w k p 1
      | _ \<Rightarrow> Inl ShapeError)"

definition pool2d_shape :: "nat \<Rightarrow> nat \<Rightarrow> nat list \<Rightarrow> error + nat list" where
  "pool2d_shape k s x =
     (case x of
        [n, c, h, w] \<Rightarrow> if c = 0 then Inl ShapeError else window [n, c] h w k 0 s
      | [c, h, w] \<Rightarrow> if c = 0 then Inl ShapeError else window [c] h w k 0 s
      | _ \<Rightarrow> Inl ShapeError)"

fun forward :: "nn_module \<Rightarrow> nat list \<Rightarrow> error + nat list"
  and forward_seq :: "(string \<times> nn_module) list \<Rightarrow> nat list \<Rightarrow> error + nat list" where
  "forward (Conv2d ic oc k p b) x = conv2d_shape ic oc k p x"
| "forward (BatchNorm2d f) x =
     (case x of
        [n, c, h, w] \<Rightarrow> if c \<noteq> f \<or> n * h * w = 1 then Inl ShapeError else Inr x
      | _ \<Rightarrow> Inl ShapeError)"
| "forward (LeakyReLU s ip) x = Inr x"
| "forward (MaxPool2d k s) x = pool2d_shape k s x"
| "forward (AvgPool2d k s) x = (if k \<le> 0 then Inl ShapeError else pool2d_shape (nat k) s x)"
| "forward (DarkConv conv bn activ) x =
     (case forward conv x of
        Inl e \<Rightarrow> Inl e
      | Inr x1 \<Rightarrow> (case forward bn x1 of Inl e \<Rightarrow> Inl e | Inr x2 \<Rightarrow> forward activ x2))"
| "forward (Sequential kids) x = forward_seq kids x"
| "forward (DarkNet features output) x =
     (case forward features x of
        Inl e \<Rightarrow> Inl e
      | Inr x1 \<Rightarrow>
          (case forward output x1 of
             Inl e \<Rightarrow> Inl e
           | Inr x2 \<Rightarrow>
               (case x2 of
                  [] \<Rightarrow> Inl ShapeError
                | n # rest \<Rightarrow>
                    if n = 0 \<or> prod_list rest = 0 then Inl ShapeError
                    else Inr [n, prod_list rest])))"
| "forward_seq [] x = Inr x"
| "forward_seq ((name, m) # rest) x =
     (case forward m x of Inl e \<Rightarrow> Inl e | Inr y \<Rightarrow> forward_seq rest y)"

subsection \<open>Closed forms of the two loops, and accessors\<close>

text \<open>
  \<open>units_from\<close> and \<open>stages_from\<close> list what the two loops append when every name
  they generate is new; \<open>units_loop_eq\<close> and \<open>stages_loop_eq\<close> below prove that the
  loops compute exactly these lists. \<open>in_channels_at\<close> is the value of the running
  \<open>in_channels\<close> when unit \<open>j\<close> (counted from 0) of stage \<open>i\<close> is built.
\<close>

fun units_from :: "bool \<Rightarrow> nat \<Rightarrow> nat \<Rightarrow> nat \<Rightarrow> nat list \<Rightarrow> (string \<times> nn_module) list" where
  "units_from odd_pointwise n j in_channels [] = []"
| "units_from odd_pointwise n j in_channels (out_channels # rest) =
     (''unit'' @ str_nat (j + 1),
      dark_convYxY in_channels out_channels
        (n > 1 \<and> \<not> (((j + 1) mod 2 = 1) \<noteq> odd_pointwise))) #
     units_from odd_pointwise n (j + 1) out_channels rest"

fun stages_from :: "bool \<Rightarrow> nat \<Rightarrow> nat \<Rightarrow> nat \<Rightarrow> nat list list \<Rightarrow> (string \<times> nn_module) list" where
  "stages_from odd_pointwise len_channels i in_channels [] = []"
| "stages_from odd_pointwise len_channels i in_channels (channels_per_stage # rest) =
     (''stage'' @ str_nat (i + 1),
      Sequential
        (units_from odd_pointwise (length channels_per_stage) 0 in_channels channels_per_stage @
         (if i \<noteq> len_channels - 1 then [(''pool'' @ str_nat (i + 1), MaxPool2d 2 2)] else []))) #
     stages_from odd_pointwise len_channels (i + 1) (last (in_channels # channels_per_stage)) rest"

text \<open>
  Accessors for stating properties of a built network: the stages of the feature part,
  the children of a \<open>Sequential\<close>, the children of stage \<open>i\<close> (counted from 0), and
  the kernel size of a convolution unit.
\<close>

fun stages_of :: "nn_module \<Rightarrow> (string \<times> nn_module) list" where
  "stages_of (DarkNet (Sequential stages) output) = stages"
| "stages_of _ = []"

fun children_of :: "nn_module \<Rightarrow> (string \<times> nn_module) list" where
  "children_of (Sequential kids) = kids"
| "children_of _ = []"

definition stage :: "nn_module \<Rightarrow> nat \<Rightarrow> (string \<times> nn_module) list" where
  "stage net i = children_of (snd (stages_of net ! i))"

fun kernel_of :: "nn_module \<Rightarrow> nat option" where
  "kernel_of (DarkConv (Conv2d ic oc k p b) bn activ) = Some k"
| "kernel_of _ = None"

definition in_channels_at :: "nat list list \<Rightarrow> nat \<Rightarrow> nat \<Rightarrow> nat \<Rightarrow> nat" where
  "in_channels_at channels in_channels i j =
     last (in_channels # concat (take i channels) @ take j (channels ! i))"

text \<open>
  \<open>plain_names\<close> holds of a module tree when no child name of a \<open>Sequential\<close> in it
  contains an underscore. The children of \<open>DarkConv\<close> and \<open>DarkNet\<close> have fixed names
  (\<open>conv\<close>, \<open>bn\<close>, \<open>activ\<close>, \<open>features\<close>, \<open>output\<close>) without one.
\<close>

fun plain_names :: "nn_module \<Rightarrow> bool"
  and plain_names_list :: "(string \<times> nn_module) list \<Rightarrow> bool" where
  "plain_names (DarkConv conv bn activ) = (plain_names conv \<and> plain_names bn \<and> plain_names activ)"
| "plain_names (Sequential kids) = plain_names_list kids"
| "plain_names (DarkNet features output) = (plain_names features \<and> plain_names output)"
| "plain_names (Conv2d ic oc k p b) = True"
| "plain_names (BatchNorm2d n) = True"
| "plain_names (LeakyReLU s ip) = True"
| "plain_names (MaxPool2d k s) = True"
| "plain_names (AvgPool2d k s) = True"
| "plain_names_list [] = True"
| "plain_names_list ((name, m) # rest) =
     (CHR ''_'' \<notin> set name \<and> plain_names m \<and> plain_names_list rest)"

section \<open>Names are distinct, so the loops append\<close>

lemma digits_length: "length digits = 10"
  by (simp add: digits_def)

lemma digits_nth_mem: "d < 10 \<Longrightarrow> digits ! d \<in> set digits"
  using nth_mem [of d digits] by (simp add: digits_length)

lemma digits_inj: "a < 10 \<Longrightarrow> b < 10 \<Longrightarrow> digits ! a = digits ! b \<Longrightarrow> a = b"
proof -
  assume a: "a < 10" and b: "b < 10" and e: "digits ! a = digits ! b"
  have d: "distinct digits" by (simp add: digits_def)
  have "length digits = 10" by (simp add: digits_def)
  with a b e d show ?thesis by (simp add: nth_eq_iff_index_eq)
qed

lemma str_nat_digits: "set (str_nat n) \<subseteq> set digits"
proof (induction n rule: str_nat.induct)
  case (1 n)
  show ?case
  proof (cases "n < 10")
    case True
    then show ?thesis by (subst str_nat.simps) (simp add: digits_nth_mem)
  next
    case False
    with 1 have "set (str_nat (n div 10)) \<subseteq> set digits" by simp
    moreover have "digits ! (n mod 10) \<in> set digits" by (simp add: digits_nth_mem)
    ultimately show ?thesis using False by (subst str_nat.simps) simp
  qed
qed

lemma str_nat_nonempty: "str_nat n \<noteq> []"
  by (subst str_nat.simps) simp

lemma str_nat_inj: "str_nat a = str_nat b \<Longrightarrow> a = b"
proof (induction a arbitrary: b rule: str_nat.induct)
  case (1 a)
  show ?case
  proof (cases "a < 10")
    case True
    note a = True
    show ?thesis
    proof (cases "b < 10")
      case True
      with a 1(2) show ?thesis
        by (simp add: str_nat.simps[of a] str_nat.simps[of b] digits_inj)
    next
      case False
      with a 1(2) have "[digits ! a] = str_nat (b div 10) @ [digits ! (b mod 10)]"
        by (simp add: str_nat.simps[of a] str_nat.simps[of b])
      then have "str_nat (b div 10) = []" by simp
      then show ?thesis by (simp add: str_nat_nonempty)
    qed
  next
    case False
    note a = False
    show ?thesis
    proof (cases "b < 10")
      case True
      with a 1(2) have "str_nat (a div 10) @ [digits ! (a mod 10)] = [digits ! b]"
        by (simp add: str_nat.simps[of a] str_nat.simps[of b])
      then have "str_nat (a div 10) = []" by simp
      then show ?thesis by (simp add: str_nat_nonempty)
    next
      case False
      with a 1(2) have e: "str_nat (a div 10) @ [digits ! (a mod 10)] = str_nat (b div 10) @ [digits ! (b mod 10)]"
        by (simp add: str_nat.simps[of a] str_nat.simps[of b])
      then have e1: "str_nat (a div 10) = str_nat (b div 10)" and e2: "digits ! (a mod 10) = digits ! (b mod 10)"
        by simp_all
      from 1(1)[OF a e1] have "a div 10 = b div 10" .
      moreover from e2 have "a mod 10 = b mod 10" by (simp add: digits_inj)
      ultimately show ?thesis by (metis div_mult_mod_eq)
    qed
  qed
qed

lemma add_module_fresh:
  "name \<notin> fst ` set kids \<Longrightarrow> add_module name m kids = kids @ [(name, m)]"
  unfolding add_module_def by (induction kids) auto

lemma units_from_keys:
  "fst ` set (units_from op n j inc cs) = (\<lambda>k. ''unit'' @ str_nat (k + 1)) ` {j..<j + length cs}"
proof (induction cs arbitrary: j inc)
  case Nil
  then show ?case by simp
next
  case (Cons c cs)
  have "{j..<j + length (c # cs)} = insert j {j + 1..<j + 1 + length cs}" by auto
  with Cons[of "j + 1" c] show ?case by simp
qed

lemma units_loop_eq:
  "\<forall>k\<ge>j. ''unit'' @ str_nat (k + 1) \<notin> fst ` set st \<Longrightarrow>
   units_loop op n j cs (st, inc) = (st @ units_from op n j inc cs, last (inc # cs))"
proof (induction cs arbitrary: j st inc)
  case Nil
  then show ?case by simp
next
  case (Cons c cs)
  let ?u = "(''unit'' @ str_nat (j + 1), dark_convYxY inc c (n > 1 \<and> \<not> (((j + 1) mod 2 = 1) \<noteq> op)))"
  from Cons.prems have fresh: "''unit'' @ str_nat (j + 1) \<notin> fst ` set st" by simp
  have next_fresh: "\<forall>k\<ge>j + 1. ''unit'' @ str_nat (k + 1) \<notin> fst ` set (st @ [?u])"
  proof (intro allI impI)
    fix k assume k: "j + 1 \<le> k"
    with Cons.prems have "''unit'' @ str_nat (k + 1) \<notin> fst ` set st" by simp
    moreover have "str_nat (k + 1) \<noteq> str_nat (j + 1)"
      using k str_nat_inj[of "k + 1" "j + 1"] by auto
    ultimately show "''unit'' @ str_nat (k + 1) \<notin> fst ` set (st @ [?u])" by simp
  qed
  have "units_loop op n j (c # cs) (st, inc) = units_loop op n (j + 1) cs (st @ [?u], c)"
    by (simp only: units_loop.simps add_module_fresh[OF fresh])
  also have "\<dots> = ((st @ [?u]) @ units_from op n (j + 1) c cs, last (c # cs))"
    by (rule Cons.IH[OF next_fresh])
  also have "\<dots> = (st @ units_from op n j inc (c # cs), last (inc # c # cs))"
    by simp
  finally show ?case .
qed

lemma stages_from_keys:
  "fst ` set (stages_from op len i inc css) = (\<lambda>k. ''stage'' @ str_nat (k + 1)) ` {i..<i + length css}"
proof (induction css arbitrary: i inc)
  case Nil
  then show ?case by simp
next
  case (Cons cs css)
  have "{i..<i + length (cs # css)} = insert i {i + 1..<i + 1 + length css}" by auto
  with Cons[of "i + 1" "last (inc # cs)"] show ?case by simp
qed

lemma pool_fresh: "''pool'' @ str_nat (i + 1) \<notin> fst ` set (units_from op n j inc cs)"
  by (auto simp: units_from_keys)

lemma stages_loop_eq:
  "\<forall>k\<ge>i. ''stage'' @ str_nat (k + 1) \<notin> fst ` set features \<Longrightarrow>
   stages_loop op len i css (features, inc) =
     (features @ stages_from op len i inc css, last (inc # concat css))"
proof (induction css arbitrary: i features inc)
  case Nil
  then show ?case by simp
next
  case (Cons cs css)
  let ?kids = "units_from op (length cs) 0 inc cs @
     (if i \<noteq> len - 1 then [(''pool'' @ str_nat (i + 1), MaxPool2d 2 2)] else [])"
  let ?s = "(''stage'' @ str_nat (i + 1), Sequential ?kids)"
  have inner: "units_loop op (length cs) 0 cs ([], inc) = (units_from op (length cs) 0 inc cs, last (inc # cs))"
    using units_loop_eq[of 0 "[]" op "length cs" cs inc] by simp
  from Cons.prems have fresh: "''stage'' @ str_nat (i + 1) \<notin> fst ` set features" by simp
  have next_fresh: "\<forall>k\<ge>i + 1. ''stage'' @ str_nat (k + 1) \<notin> fst ` set (features @ [?s])"
  proof (intro allI impI)
    fix k assume k: "i + 1 \<le> k"
    with Cons.prems have "''stage'' @ str_nat (k + 1) \<notin> fst ` set features" by simp
    moreover have "str_nat (k + 1) \<noteq> str_nat (i + 1)"
      using k str_nat_inj[of "k + 1" "i + 1"] by auto
    ultimately show "''stage'' @ str_nat (k + 1) \<notin> fst ` set (features @ [?s])" by simp
  qed
  have last_eq: "last (last (inc # cs) # concat css) = last (inc # concat (cs # css))"
    by (cases "concat css = []") (auto simp: last_append)
  have pool: "(if i \<noteq> len - 1
        then add_module (''pool'' @ str_nat (i + 1)) (MaxPool2d 2 2)
               (units_from op (length cs) 0 inc cs)
        else units_from op (length cs) 0 inc cs) = ?kids"
    by (simp only: add_module_fresh[OF pool_fresh]) simp
  have "stages_loop op len i (cs # css) (features, inc) =
          stages_loop op len (i + 1) css (features @ [?s], last (inc # cs))"
    by (simp only: stages_loop.simps inner prod.case pool add_module_fresh[OF fresh])
  also have "\<dots> = ((features @ [?s]) @ stages_from op len (i + 1) (last (inc # cs)) css,
                     last (last (inc # cs) # concat css))"
    by (rule Cons.IH[OF next_fresh])
  also have "\<dots> = (features @ stages_from op len i inc (cs # css), last (inc # concat (cs # css)))"
    by (simp only: last_eq stages_from.simps append_assoc append_Cons append_Nil)
  finally show ?case .
qed

lemma DarkNet_init_eq:
  "DarkNet_init channels op aps ca inc nc =
     DarkNet (Sequential (stages_from op (length channels) 0 inc channels))
       (Sequential
          ((''final_conv'', Conv2d (last (inc # concat channels)) nc 1 0 True) #
           (if ca then [(''final_activ'', LeakyReLU (1 / 10) True)] else []) @
           [(''final_pool'', AvgPool2d aps 1)]))"
  using stages_loop_eq[of 0 "[]" op "length channels" channels inc]
  by (simp add: DarkNet_init_def add_module_def)

lemma length_units_from [simp]: "length (units_from op n j inc cs) = length cs"
  by (induction cs arbitrary: j inc) simp_all

lemma length_stages_from [simp]: "length (stages_from op len i inc css) = length css"
  by (induction css arbitrary: i inc) simp_all

lemma units_from_nth:
  "j < length cs \<Longrightarrow>
   units_from op n j0 inc cs ! j =
     (''unit'' @ str_nat (j0 + j + 1),
      dark_convYxY (last (inc # take j cs)) (cs ! j)
        (n > 1 \<and> \<not> (((j0 + j + 1) mod 2 = 1) \<noteq> op)))"
proof (induction cs arbitrary: j0 inc j)
  case Nil
  then show ?case by simp
next
  case (Cons c cs)
  show ?case
  proof (cases j)
    case 0
    then show ?thesis by simp
  next
    case (Suc j')
    with Cons.prems have "j' < length cs" by simp
    from Cons.IH[OF this, of "j0 + 1" c] Suc show ?thesis by simp
  qed
qed

lemma stages_from_nth:
  "i < length css \<Longrightarrow>
   stages_from op len i0 inc css ! i =
     (''stage'' @ str_nat (i0 + i + 1),
      Sequential
        (units_from op (length (css ! i)) 0 (last (inc # concat (take i css))) (css ! i) @
         (if i0 + i \<noteq> len - 1 then [(''pool'' @ str_nat (i0 + i + 1), MaxPool2d 2 2)] else [])))"
proof (induction css arbitrary: i0 inc i)
  case Nil
  then show ?case by simp
next
  case (Cons cs css)
  show ?case
  proof (cases i)
    case 0
    then show ?thesis by simp
  next
    case (Suc i')
    with Cons.prems have i': "i' < length css" by simp
    have l: "last (last (inc # cs) # concat (take i' css)) = last (inc # concat (take i (cs # css)))"
      unfolding Suc by (cases "concat (take i' css) = []") (auto simp: last_append)
    from Cons.IH[OF i', of "i0 + 1" "last (inc # cs)"] Suc l show ?thesis
      by (simp del: last.simps)
  qed
qed

lemma stage_DarkNet_init:
  assumes "i < length channels"
  shows "stage (DarkNet_init channels op aps ca inc nc) i =
           units_from op (length (channels ! i)) 0 (last (inc # concat (take i channels))) (channels ! i) @
           (if i \<noteq> length channels - 1 then [(''pool'' @ str_nat (i + 1), MaxPool2d 2 2)] else [])"
  using stages_from_nth[OF assms, of op "length channels" 0 inc]
  by (simp add: stage_def DarkNet_init_eq del: last.simps)

lemma unit_DarkNet_init:
  assumes i: "i < length channels" and j: "j < length (channels ! i)"
  shows "stage (DarkNet_init channels op aps ca inc nc) i ! j =
           (''unit'' @ str_nat (j + 1),
            dark_convYxY (in_channels_at channels inc i j) (channels ! i ! j)
              (length (channels ! i) > 1 \<and> \<not> (((j + 1) mod 2 = 1) \<noteq> op)))"
proof -
  have l: "last (last (inc # concat (take i channels)) # take j (channels ! i)) =
           in_channels_at channels inc i j"
    unfolding in_channels_at_def
    by (cases "take j (channels ! i) = []") (auto simp: last_append)
  show ?thesis
    using units_from_nth[OF j, of op "length (channels ! i)" 0 "last (inc # concat (take i channels))"] j
    by (simp add: stage_DarkNet_init[OF i] nth_append l del: last.simps)
qed

section \<open>Kernel selection and pooling\<close>

lemma kernel_of_dark_convYxY: "kernel_of (dark_convYxY a b p) = Some (if p then 1 else 3)"
  by (simp add: dark_convYxY_def dark_conv1x1_def dark_conv3x3_def DarkConv_init_def)

lemma units_from_all_units: "list_all (\<lambda>u. kernel_of (snd u) \<noteq> None) (units_from op n j inc cs)"
  by (induction cs arbitrary: j inc) (simp_all add: kernel_of_dark_convYxY)

text \<open>
  Claim C1, as the code has it: in a stage whose channel list has length 1 the flag
  \<open>pointwise\<close> is false (\<open>len(channels_per_stage) > 1\<close> fails), so its unit is the
  spatial 3x3 convolution with padding 1, whatever \<open>odd_pointwise\<close> is. Units are
  counted from 1, as the names \<open>unit1, unit2, \<dots>\<close> are.
\<close>

theorem single_unit_stage_is_spatial:
  assumes "i < length channels" and "length (channels ! i) = 1"
    and "1 \<le> j" and "j \<le> length (channels ! i)"
  shows "snd (stage (DarkNet_init channels odd_pointwise avg_pool_size cls_activ in_channels num_classes) i ! (j - 1)) =
           dark_conv3x3 (in_channels_at channels in_channels i (j - 1)) (channels ! i ! (j - 1))
         \<and> kernel_of (snd (stage (DarkNet_init channels odd_pointwise avg_pool_size cls_activ in_channels num_classes) i ! (j - 1))) = Some 3"
proof -
  from assms have j: "j - 1 < length (channels ! i)" by simp
  show ?thesis
    unfolding unit_DarkNet_init[OF assms(1) j] snd_conv kernel_of_dark_convYxY
    using assms(2) by (simp add: dark_convYxY_def)
qed

theorem single_unit_stage_is_spatial_witness:
  "(0::nat) < length [[16::nat], [32]] \<and> length ([[16::nat], [32]] ! 0) = 1 \<and> (1::nat) \<le> 1 \<and>
   1 \<le> length ([[16::nat], [32]] ! 0) \<and>
   snd (stage (DarkNet_init [[16], [32]] True 2 False 3 10) 0 ! (1 - 1)) = dark_conv3x3 3 16 \<and>
   kernel_of (snd (stage (DarkNet_init [[16], [32]] True 2 False 3 10) 0 ! (1 - 1))) = Some 3"
  using single_unit_stage_is_spatial[of 0 "[[16], [32]]" 1 True 2 False 3 10]
  by (simp add: in_channels_at_def dark_conv3x3_def DarkConv_init_def)

text \<open>
  The first stage of the \<open>ref\<close> configuration has the channel list \<open>[16]\<close>; its unit
  has kernel size 3, not 1, with either value of \<open>odd_pointwise\<close>.
\<close>

theorem single_unit_stage_pointwise_counterexample:
  "kernel_of (snd (stage (DarkNet_init [[16], [32], [64], [128], [256], [512], [1024]] False 3 True 3 1000) 0 ! 0)) = Some 3 \<and>
   kernel_of (snd (stage (DarkNet_init [[16], [32], [64], [128], [256], [512], [1024]] False 3 True 3 1000) 0 ! 0)) \<noteq> Some 1 \<and>
   kernel_of (snd (stage (DarkNet_init [[16], [32], [64], [128], [256], [512], [1024]] True 3 True 3 1000) 0 ! 0)) \<noteq> Some 1"
  by (simp add: unit_DarkNet_init kernel_of_dark_convYxY)

text \<open>
  Claim C3: in a stage with more than one channel count, unit \<open>j\<close> (counted from 1) is
  the pointwise 1x1 convolution exactly when \<open>(j is odd) XOR odd_pointwise\<close> is false,
  and the spatial 3x3 convolution otherwise.
\<close>

theorem unit_kernel_xor_rule:
  assumes "i < length channels" and "1 < length (channels ! i)"
    and "1 \<le> j" and "j \<le> length (channels ! i)"
  shows "snd (stage (DarkNet_init channels odd_pointwise avg_pool_size cls_activ in_channels num_classes) i ! (j - 1)) =
           (if odd j \<noteq> odd_pointwise
            then dark_conv3x3 (in_channels_at channels in_channels i (j - 1)) (channels ! i ! (j - 1))
            else dark_conv1x1 (in_channels_at channels in_channels i (j - 1)) (channels ! i ! (j - 1)))
         \<and> (kernel_of (snd (stage (DarkNet_init channels odd_pointwise avg_pool_size cls_activ in_channels num_classes) i ! (j - 1))) = Some 1)
             = (\<not> (odd j \<noteq> odd_pointwise))
         \<and> (kernel_of (snd (stage (DarkNet_init channels odd_pointwise avg_pool_size cls_activ in_channels num_classes) i ! (j - 1))) = Some 3)
             = (odd j \<noteq> odd_pointwise)"
proof -
  from assms have j: "j - 1 < length (channels ! i)" by simp
  from assms(3) have o: "((j - 1 + 1) mod 2 = 1) = odd j" by (simp add: odd_iff_mod_2_eq_one)
  show ?thesis
    unfolding unit_DarkNet_init[OF assms(1) j] snd_conv kernel_of_dark_convYxY o
    using assms(2) by (simp add: dark_convYxY_def)
qed

theorem unit_kernel_xor_rule_witness:
  "(2::nat) < length [[32::nat], [64], [128, 64, 128]] \<and> 1 < length ([[32::nat], [64], [128, 64, 128]] ! 2) \<and>
   (1::nat) \<le> 2 \<and> 2 \<le> length ([[32::nat], [64], [128, 64, 128]] ! 2) \<and>
   snd (stage (DarkNet_init [[32], [64], [128, 64, 128]] False 7 False 3 1000) 2 ! (2 - 1)) = dark_conv1x1 128 64 \<and>
   kernel_of (snd (stage (DarkNet_init [[32], [64], [128, 64, 128]] False 7 False 3 1000) 2 ! (2 - 1))) = Some 1"
  using unit_kernel_xor_rule[of 2 "[[32], [64], [128, 64, 128]]" 2 False 7 False 3 1000]
  by (simp add: in_channels_at_def dark_conv1x1_def DarkConv_init_def)

text \<open>
  Claim C2, as the code has it: in a stage with more than one channel count, with
  \<open>odd_pointwise = False\<close> the odd units (1, 3, \<dots>) are spatial 3x3 and the even units
  are pointwise, so the alternation starts spatial; with \<open>odd_pointwise = True\<close> the odd
  units are pointwise and the even units spatial, so it starts pointwise.
\<close>

theorem alternation_starts_spatial:
  assumes "i < length channels" and "1 < length (channels ! i)"
    and "1 \<le> j" and "j \<le> length (channels ! i)"
  shows "kernel_of (snd (stage (DarkNet_init channels False avg_pool_size cls_activ in_channels num_classes) i ! (j - 1))) =
           Some (if odd j then 3 else 1)
         \<and> kernel_of (snd (stage (DarkNet_init channels True avg_pool_size cls_activ in_channels num_classes) i ! (j - 1))) =
           Some (if odd j then 1 else 3)"
proof -
  from assms have j: "j - 1 < length (channels ! i)" by simp
  from assms(3) have o: "((j - 1 + 1) mod 2 = 1) = odd j" by (simp add: odd_iff_mod_2_eq_one)
  show ?thesis
    unfolding unit_DarkNet_init[OF assms(1) j] snd_conv kernel_of_dark_convYxY o
    using assms(2) by simp
qed

theorem alternation_starts_spatial_witness:
  "(2::nat) < length [[16::nat], [32], [16, 128, 16, 128]] \<and> 1 < length ([[16::nat], [32], [16, 128, 16, 128]] ! 2) \<and>
   (1::nat) \<le> 1 \<and> 1 \<le> length ([[16::nat], [32], [16, 128, 16, 128]] ! 2) \<and>
   kernel_of (snd (stage (DarkNet_init [[16], [32], [16, 128, 16, 128]] False 14 False 3 1000) 2 ! (1 - 1))) = Some 3 \<and>
   kernel_of (snd (stage (DarkNet_init [[16], [32], [16, 128, 16, 128]] True 14 False 3 1000) 2 ! (1 - 1))) = Some 1"
  using alternation_starts_spatial[of 2 "[[16], [32], [16, 128, 16, 128]]" 1 14 False 3 1000]
  by simp

text \<open>
  The third stage of the \<open>19\<close> configuration has the channel list \<open>[128, 64, 128]\<close> and
  \<open>odd_pointwise = False\<close>: its unit 1 has kernel size 3, not 1. With
  \<open>odd_pointwise = True\<close> the same unit has kernel size 1.
\<close>

theorem alternation_starts_pointwise_counterexample:
  "kernel_of (snd (stage (DarkNet_init [[32], [64], [128, 64, 128], [256, 128, 256], [512, 256, 512, 256, 512],
       [1024, 512, 1024, 512, 1024]] False 7 False 3 1000) 2 ! 0)) = Some 3 \<and>
   kernel_of (snd (stage (DarkNet_init [[32], [64], [128, 64, 128], [256, 128, 256], [512, 256, 512, 256, 512],
       [1024, 512, 1024, 512, 1024]] False 7 False 3 1000) 2 ! 0)) \<noteq> Some 1 \<and>
   kernel_of (snd (stage (DarkNet_init [[32], [64], [128, 64, 128], [256, 128, 256], [512, 256, 512, 256, 512],
       [1024, 512, 1024, 512, 1024]] True 7 False 3 1000) 2 ! 0)) = Some 1"
  by (simp add: unit_DarkNet_init kernel_of_dark_convYxY)

text \<open>
  Claim C6: stage \<open>i\<close> (counted from 0) consists of one convolution unit per channel
  count, followed by exactly one 2x2, stride-2 max-pooling when it is not the last stage,
  and by nothing when it is the last stage.
\<close>

theorem pooling_after_all_but_last_stage:
  assumes "i < length channels"
  shows "list_all (\<lambda>u. kernel_of (snd u) \<noteq> None)
           (take (length (channels ! i))
              (stage (DarkNet_init channels odd_pointwise avg_pool_size cls_activ in_channels num_classes) i))
         \<and> length (stage (DarkNet_init channels odd_pointwise avg_pool_size cls_activ in_channels num_classes) i)
             = length (channels ! i) + (if i + 1 < length channels then 1 else 0)
         \<and> drop (length (channels ! i))
              (stage (DarkNet_init channels odd_pointwise avg_pool_size cls_activ in_channels num_classes) i) =
             (if i + 1 < length channels then [(''pool'' @ str_nat (i + 1), MaxPool2d 2 2)] else [])"
proof -
  have c: "(i \<noteq> length channels - 1) = (i + 1 < length channels)"
    using assms by auto
  let ?units = "units_from odd_pointwise (length (channels ! i)) 0
                  (last (in_channels # concat (take i channels))) (channels ! i)"
  let ?pool = "if i + 1 < length channels then [(''pool'' @ str_nat (i + 1), MaxPool2d 2 2)] else []"
  have s: "stage (DarkNet_init channels odd_pointwise avg_pool_size cls_activ in_channels num_classes) i =
             ?units @ ?pool"
    by (simp only: stage_DarkNet_init[OF assms] c)
  have t: "take (length (channels ! i)) (?units @ ?pool) = ?units"
    and d: "drop (length (channels ! i)) (?units @ ?pool) = ?pool"
    and l: "length (?units @ ?pool) = length (channels ! i) + (if i + 1 < length channels then 1 else 0)"
    by simp_all
  show ?thesis
    unfolding s t d l using units_from_all_units by simp
qed

theorem pooling_after_all_but_last_stage_witness:
  "(1::nat) < length [[16::nat], [32, 64]] \<and>
   drop (length ([[16::nat], [32, 64]] ! 1)) (stage (DarkNet_init [[16], [32, 64]] False 2 True 3 10) 1) = [] \<and>
   (0::nat) < length [[16::nat], [32, 64]] \<and>
   drop (length ([[16::nat], [32, 64]] ! 0)) (stage (DarkNet_init [[16], [32, 64]] False 2 True 3 10) 0) =
     [(''pool1'', MaxPool2d 2 2)]"
  using pooling_after_all_but_last_stage[of 1 "[[16], [32, 64]]" False 2 True 3 10]
        pooling_after_all_but_last_stage[of 0 "[[16], [32, 64]]" False 2 True 3 10]
  by (simp add: str_nat.simps digits_def)

section \<open>The constructor on Python integers is the constructor behind a size test\<close>

lemma dark_convYxY_int_eq:
  "dark_convYxY_int ic oc pw =
     (if 0 \<le> ic \<and> 0 \<le> oc then Inr (dark_convYxY (nat ic) (nat oc) pw) else Inl RuntimeError)"
  by (simp add: dark_convYxY_int_def dark_conv1x1_int_def dark_conv3x3_int_def
        DarkConv_init_int_def Conv2d_int_def BatchNorm2d_int_def
        dark_convYxY_def dark_conv1x1_def dark_conv3x3_def DarkConv_init_def)

lemma snd_units_loop: "snd (units_loop op n j cs (st, inc)) = last (inc # cs)"
  by (induction cs arbitrary: j st inc) simp_all

lemma snd_stages_loop: "snd (stages_loop op len i css (f, inc)) = last (inc # concat css)"
proof (induction css arbitrary: i f inc)
  case Nil
  then show ?case by simp
next
  case (Cons cs css)
  obtain st inc' where u: "units_loop op (length cs) 0 cs ([], inc) = (st, inc')"
    by (cases "units_loop op (length cs) 0 cs ([], inc)")
  from snd_units_loop[of op "length cs" 0 cs "[]" inc] u have i: "inc' = last (inc # cs)" by simp
  have l: "last (last (inc # cs) # concat css) = last (inc # concat (cs # css))"
    by (cases "concat css = []") (auto simp: last_append)
  show ?case
    by (simp only: stages_loop.simps u prod.case Cons.IH i l)
qed

lemma nat_last: "nat (last (inc # cs)) = last (nat inc # map nat cs)"
  by (simp add: last_map)

lemma units_loop_int_eq:
  "units_loop_int op n j cs (st, inc) =
     (if (\<forall>c\<in>set cs. 0 \<le> c) \<and> (cs = [] \<or> 0 \<le> inc)
      then Inr (fst (units_loop op n j (map nat cs) (st, nat inc)), last (inc # cs))
      else Inl RuntimeError)"
proof (induction cs arbitrary: j st inc)
  case Nil
  then show ?case by simp
next
  case (Cons c cs)
  show ?case
  proof (cases "0 \<le> inc \<and> 0 \<le> c")
    case True
    then show ?thesis
      by (simp add: dark_convYxY_int_eq Cons.IH)
  next
    case False
    then show ?thesis
      by (auto simp: dark_convYxY_int_eq)
  qed
qed

lemma stages_loop_int_eq:
  "stages_loop_int op len i css (f, inc) =
     (if (\<forall>cs\<in>set css. \<forall>c\<in>set cs. 0 \<le> c) \<and> (concat css = [] \<or> 0 \<le> inc)
      then Inr (fst (stages_loop op len i (map (map nat) css) (f, nat inc)), last (inc # concat css))
      else Inl RuntimeError)"
proof (induction css arbitrary: i f inc)
  case Nil
  then show ?case by simp
next
  case (Cons cs css)
  let ?ok = "(\<forall>c\<in>set cs. 0 \<le> c) \<and> (cs = [] \<or> 0 \<le> inc)"
  show ?case
  proof (cases ?ok)
    case False
    then have "units_loop_int op (length cs) 0 cs ([], inc) = Inl RuntimeError"
      by (simp add: units_loop_int_eq)
    then have "stages_loop_int op len i (cs # css) (f, inc) = Inl RuntimeError"
      by (simp only: stages_loop_int.simps sum.case)
    moreover from False have "\<not> ((\<forall>cs\<in>set (cs # css). \<forall>c\<in>set cs. 0 \<le> c) \<and>
        (concat (cs # css) = [] \<or> 0 \<le> inc))"
      by auto
    ultimately show ?thesis by (simp only: if_False)
  next
    case True
    obtain st inc' where u: "units_loop op (length cs) 0 (map nat cs) ([], nat inc) = (st, inc')"
      by (cases "units_loop op (length cs) 0 (map nat cs) ([], nat inc)")
    from snd_units_loop[of op "length cs" 0 "map nat cs" "[]" "nat inc"] u
    have inc': "inc' = nat (last (inc # cs))" by (simp add: last_map)
    let ?f' = "add_module (''stage'' @ str_nat (i + 1))
               (Sequential
                  (if i \<noteq> len - 1
                   then add_module (''pool'' @ str_nat (i + 1)) (MaxPool2d 2 2) st
                   else st)) f"
    from True u have ui: "units_loop_int op (length cs) 0 cs ([], inc) = Inr (st, last (inc # cs))"
      by (simp add: units_loop_int_eq)
    have step_int: "stages_loop_int op len i (cs # css) (f, inc) =
        stages_loop_int op len (i + 1) css (?f', last (inc # cs))"
      by (simp only: stages_loop_int.simps ui sum.case prod.case)
    have step_nat: "stages_loop op len i (map (map nat) (cs # css)) (f, nat inc) =
        stages_loop op len (i + 1) (map (map nat) css) (?f', nat (last (inc # cs)))"
      using u inc' by simp
    have l: "last (last (inc # cs) # concat css) = last (inc # concat (cs # css))"
      by (cases "concat css = []") (auto simp: last_append)
    have c: "((\<forall>cs\<in>set css. \<forall>c\<in>set cs. 0 \<le> c) \<and> (concat css = [] \<or> 0 \<le> last (inc # cs))) =
             ((\<forall>cs\<in>set (cs # css). \<forall>c\<in>set cs. 0 \<le> c) \<and> (concat (cs # css) = [] \<or> 0 \<le> inc))"
      using True by (cases "cs = []") auto
    show ?thesis
      unfolding step_int step_nat Cons.IH l c ..
  qed
qed

lemma DarkNet_init_int_eq:
  "DarkNet_init_int channels op aps ca ic nc =
     (if 0 \<le> ic \<and> 0 \<le> nc \<and> (\<forall>cs\<in>set channels. \<forall>c\<in>set cs. 0 \<le> c)
      then Inr (DarkNet_init (map (map nat) channels) op aps ca (nat ic) (nat nc))
      else Inl RuntimeError)"
proof (cases "(\<forall>cs\<in>set channels. \<forall>c\<in>set cs. 0 \<le> c) \<and> (concat channels = [] \<or> 0 \<le> ic)")
  case False
  then have "stages_loop_int op (length channels) 0 channels ([], ic) = Inl RuntimeError"
    by (simp only: stages_loop_int_eq if_False)
  then have "DarkNet_init_int channels op aps ca ic nc = Inl RuntimeError"
    by (simp only: DarkNet_init_int_def sum.case)
  moreover from False have "\<not> (0 \<le> ic \<and> 0 \<le> nc \<and> (\<forall>cs\<in>set channels. \<forall>c\<in>set cs. 0 \<le> c))"
    by auto
  ultimately show ?thesis by (simp only: if_False)
next
  case True
  obtain fs inc' where s: "stages_loop op (length channels) 0 (map (map nat) channels) ([], nat ic) = (fs, inc')"
    by (cases "stages_loop op (length channels) 0 (map (map nat) channels) ([], nat ic)")
  have "last (nat ic # concat (map (map nat) channels)) = last (map nat (ic # concat channels))"
    by (simp only: list.map map_concat)
  also have "\<dots> = nat (last (ic # concat channels))"
    by (rule last_map) simp
  finally have "snd (stages_loop op (length channels) 0 (map (map nat) channels) ([], nat ic)) =
      nat (last (ic # concat channels))"
    by (simp only: snd_stages_loop)
  with s have inc': "inc' = nat (last (ic # concat channels))"
    by (simp only: snd_conv)
  from True s have si: "stages_loop_int op (length channels) 0 channels ([], ic) =
      Inr (fs, last (ic # concat channels))"
    by (simp add: stages_loop_int_eq)
  have nonneg: "(0 \<le> last (ic # concat channels)) = (0 \<le> ic)"
  proof (cases "concat channels = []")
    case True
    then show ?thesis by simp
  next
    case False
    then have "last (concat channels) \<in> set (concat channels)"
      by (rule last_in_set)
    with \<open>(\<forall>cs\<in>set channels. \<forall>c\<in>set cs. 0 \<le> c) \<and> (concat channels = [] \<or> 0 \<le> ic)\<close>
    have "0 \<le> last (concat channels)" by auto
    moreover from False \<open>(\<forall>cs\<in>set channels. \<forall>c\<in>set cs. 0 \<le> c) \<and> (concat channels = [] \<or> 0 \<le> ic)\<close>
    have "0 \<le> ic" by blast
    ultimately show ?thesis using False by simp
  qed
  show ?thesis
  proof (cases "0 \<le> ic \<and> 0 \<le> nc")
    case False
    with nonneg have "last (ic # concat channels) < 0 \<or> nc < 0"
      by (simp only: not_le[symmetric]) blast
    then have conv: "Conv2d_int (last (ic # concat channels)) nc 1 0 True = Inl RuntimeError"
      by (simp only: Conv2d_int_def if_True)
    have "DarkNet_init_int channels op aps ca ic nc = Inl RuntimeError"
      by (simp only: DarkNet_init_int_def si sum.case prod.case conv)
    moreover from False have "\<not> (0 \<le> ic \<and> 0 \<le> nc \<and> (\<forall>cs\<in>set channels. \<forall>c\<in>set cs. 0 \<le> c))"
      by blast
    ultimately show ?thesis by (simp only: if_False)
  next
    case True
    with \<open>(\<forall>cs\<in>set channels. \<forall>c\<in>set cs. 0 \<le> c) \<and> (concat channels = [] \<or> 0 \<le> ic)\<close>
    have cond: "0 \<le> ic \<and> 0 \<le> nc \<and> (\<forall>cs\<in>set channels. \<forall>c\<in>set cs. 0 \<le> c)"
      by blast
    from True nonneg
    have conv: "Conv2d_int (last (ic # concat channels)) nc 1 0 True =
        Inr (Conv2d (nat (last (ic # concat channels))) (nat nc) 1 0 True)"
      by (simp add: Conv2d_int_def)
    have lhs: "DarkNet_init_int channels op aps ca ic nc =
        Inr (DarkNet (Sequential fs)
               (Sequential
                  (add_module ''final_pool'' (AvgPool2d aps 1)
                     ((if ca then add_module ''final_activ'' (LeakyReLU (1 / 10) True) else id)
                        (add_module ''final_conv''
                           (Conv2d (nat (last (ic # concat channels))) (nat nc) 1 0 True) [])))))"
      by (simp only: DarkNet_init_int_def si sum.case prod.case conv)
    have rhs: "DarkNet_init (map (map nat) channels) op aps ca (nat ic) (nat nc) =
        DarkNet (Sequential fs)
               (Sequential
                  (add_module ''final_pool'' (AvgPool2d aps 1)
                     ((if ca then add_module ''final_activ'' (LeakyReLU (1 / 10) True) else id)
                        (add_module ''final_conv''
                           (Conv2d (nat (last (ic # concat channels))) (nat nc) 1 0 True) []))))"
      by (simp only: DarkNet_init_def length_map s prod.case inc')
    have "(if 0 \<le> ic \<and> 0 \<le> nc \<and> (\<forall>cs\<in>set channels. \<forall>c\<in>set cs. 0 \<le> c)
           then Inr (DarkNet_init (map (map nat) channels) op aps ca (nat ic) (nat nc))
           else Inl RuntimeError) =
          Inr (DarkNet_init (map (map nat) channels) op aps ca (nat ic) (nat nc))"
      using cond by (rule if_P)
    then show ?thesis
      by (simp only: lhs rhs)
  qed
qed

section \<open>The variant factory\<close>

lemma get_darknet_cases:
  "get_darknet version pretrained kwargs =
     (if version \<notin> {''ref'', ''tiny'', ''19''}
      then Inl (ValueError (''Unsupported DarkNet version '' @ version))
      else if pretrained then Inl (ValueError ''Pretrained model is not supported'')
      else if list_ex (\<lambda>name. name \<noteq> ''in_channels'' \<and> name \<noteq> ''num_classes'') (map fst kwargs)
      then Inl TypeError
      else if kwarg kwargs ''in_channels'' 3 < 0 \<or> kwarg kwargs ''num_classes'' 1000 < 0
      then Inl RuntimeError
      else Inr (if version = ''ref'' then
                  DarkNet_init [[16], [32], [64], [128], [256], [512], [1024]] False 3 True
                    (nat (kwarg kwargs ''in_channels'' 3)) (nat (kwarg kwargs ''num_classes'' 1000))
                else if version = ''tiny'' then
                  DarkNet_init [[16], [32], [16, 128, 16, 128], [32, 256, 32, 256],
                      [64, 512, 64, 512, 128]] True 14 False
                    (nat (kwarg kwargs ''in_channels'' 3)) (nat (kwarg kwargs ''num_classes'' 1000))
                else
                  DarkNet_init [[32], [64], [128, 64, 128], [256, 128, 256],
                      [512, 256, 512, 256, 512], [1024, 512, 1024, 512, 1024]] False 7 False
                    (nat (kwarg kwargs ''in_channels'' 3)) (nat (kwarg kwargs ''num_classes'' 1000))))"
  by (simp add: get_darknet_def DarkNet_call_def DarkNet_init_int_eq not_le)

text \<open>
  Claim C5, as the code has it: \<open>get_darknet\<close> raises \<open>ValueError\<close> exactly when the
  version is none of \<open>ref\<close>, \<open>tiny\<close>, \<open>19\<close> or pretrained weights are requested, with
  the message of the source and without a network. Otherwise the constructor is called:
  a keyword argument other than \<open>in_channels\<close> and \<open>num_classes\<close> raises \<open>TypeError\<close>,
  a negative \<open>in_channels\<close> or \<open>num_classes\<close> raises \<open>RuntimeError\<close>, and in every other
  case the result is the network the constructor assembles from the named variant's own
  channel table, flags and pooling size.
\<close>

theorem get_darknet_outcome:
  "((\<exists>msg. get_darknet version pretrained kwargs = Inl (ValueError msg)) \<longleftrightarrow>
      version \<notin> {''ref'', ''tiny'', ''19''} \<or> pretrained)
   \<and> get_darknet version pretrained kwargs =
     (if version \<notin> {''ref'', ''tiny'', ''19''}
      then Inl (ValueError (''Unsupported DarkNet version '' @ version))
      else if pretrained then Inl (ValueError ''Pretrained model is not supported'')
      else if list_ex (\<lambda>name. name \<noteq> ''in_channels'' \<and> name \<noteq> ''num_classes'') (map fst kwargs)
      then Inl TypeError
      else if kwarg kwargs ''in_channels'' 3 < 0 \<or> kwarg kwargs ''num_classes'' 1000 < 0
      then Inl RuntimeError
      else Inr (if version = ''ref'' then
                  DarkNet_init [[16], [32], [64], [128], [256], [512], [1024]] False 3 True
                    (nat (kwarg kwargs ''in_channels'' 3)) (nat (kwarg kwargs ''num_classes'' 1000))
                else if version = ''tiny'' then
                  DarkNet_init [[16], [32], [16, 128, 16, 128], [32, 256, 32, 256],
                      [64, 512, 64, 512, 128]] True 14 False
                    (nat (kwarg kwargs ''in_channels'' 3)) (nat (kwarg kwargs ''num_classes'' 1000))
                else
                  DarkNet_init [[32], [64], [128, 64, 128], [256, 128, 256],
                      [512, 256, 512, 256, 512], [1024, 512, 1024, 512, 1024]] False 7 False
                    (nat (kwarg kwargs ''in_channels'' 3)) (nat (kwarg kwargs ''num_classes'' 1000))))"
proof (rule conjI)
  show "(\<exists>msg. get_darknet version pretrained kwargs = Inl (ValueError msg)) \<longleftrightarrow>
      version \<notin> {''ref'', ''tiny'', ''19''} \<or> pretrained"
    unfolding get_darknet_cases by simp
qed (rule get_darknet_cases)

theorem get_darknet_outcome_witness:
  "get_darknet ''bogus'' False [] = Inl (ValueError ''Unsupported DarkNet version bogus'') \<and>
   get_darknet ''ref'' True [] = Inl (ValueError ''Pretrained model is not supported'') \<and>
   get_darknet ''tiny'' False [(''num_classes'', 10)] =
     Inr (DarkNet_init [[16], [32], [16, 128, 16, 128], [32, 256, 32, 256],
                      [64, 512, 64, 512, 128]] True 14 False 3 10) \<and>
   get_darknet ''19'' False [(''in_channels'', 1), (''stride'', 2)] = Inl TypeError \<and>
   get_darknet ''19'' False [(''num_classes'', - 5)] = Inl RuntimeError"
  using get_darknet_outcome[of "''bogus''" False "[]"]
        get_darknet_outcome[of "''ref''" True "[]"]
        get_darknet_outcome[of "''tiny''" False "[(''num_classes'', 10)]"]
        get_darknet_outcome[of "''19''" False "[(''in_channels'', 1), (''stride'', 2)]"]
        get_darknet_outcome[of "''19''" False "[(''num_classes'', - 5)]"]
  by (simp add: kwarg_def)

text \<open>
  A recognised version without pretrained weights does not always give a network:
  \<open>get_darknet('ref', in_channels=-1)\<close> raises \<open>RuntimeError\<close> in the first
  convolution, and \<open>get_darknet('ref', width=2)\<close> raises \<open>TypeError\<close> in the call of
  the constructor.
\<close>

theorem get_darknet_network_counterexample:
  "get_darknet ''ref'' False [(''in_channels'', - 1)] = Inl RuntimeError \<and>
   get_darknet ''ref'' False [(''width'', 2)] = Inl TypeError"
  by (simp add: get_darknet_def DarkNet_call_def kwarg_def DarkNet_init_int_def
        dark_convYxY_int_def dark_conv3x3_int_def dark_conv1x1_int_def DarkConv_init_int_def
        Conv2d_int_def BatchNorm2d_int_def)

text \<open>
  Claim C9: with an unrecognised version and \<open>pretrained = True\<close> the error is the
  unsupported-version one, whatever the keyword arguments; the pretrained error is
  returned only for a recognised version.
\<close>

theorem version_check_precedes_pretrained:
  "(version \<notin> {''ref'', ''tiny'', ''19''} \<longrightarrow>
      get_darknet version True kwargs =
        Inl (ValueError (''Unsupported DarkNet version '' @ version)))
   \<and> (get_darknet version pretrained kwargs =
        Inl (ValueError ''Pretrained model is not supported'') \<longrightarrow>
      version \<in> {''ref'', ''tiny'', ''19''} \<and> pretrained)"
  unfolding get_darknet_cases by (auto split: if_splits)

theorem version_check_precedes_pretrained_witness:
  "''bogus'' \<notin> {''ref'', ''tiny'', ''19''} \<and>
   get_darknet ''bogus'' True [] = Inl (ValueError ''Unsupported DarkNet version bogus'') \<and>
   get_darknet ''19'' True [] = Inl (ValueError ''Pretrained model is not supported'') \<and>
   ''19'' \<in> {''ref'', ''tiny'', ''19''}"
  using version_check_precedes_pretrained[of "''bogus''" "[]" True]
        version_check_precedes_pretrained[of "''19''" "[]" True]
  by (simp add: get_darknet_def)

section \<open>The initialisation pass\<close>

lemma submodule_prefix_plain:
  "CHR ''_'' \<notin> set pfx \<Longrightarrow> CHR ''_'' \<notin> set name \<Longrightarrow> CHR ''_'' \<notin> set (submodule_prefix pfx name)"
  by (simp add: submodule_prefix_def)

lemma named_modules_plain:
  "plain_names m \<Longrightarrow> CHR ''_'' \<notin> set pfx \<Longrightarrow>
     \<forall>x\<in>set (named_modules pfx m). CHR ''_'' \<notin> set (fst x)"
  "plain_names_list kids \<Longrightarrow> CHR ''_'' \<notin> set pfx \<Longrightarrow>
     \<forall>x\<in>set (named_children pfx kids). CHR ''_'' \<notin> set (fst x)"
proof (induction pfx m and pfx kids rule: named_modules_named_children.induct)
  case (1 pfx conv bn activ)
  then show ?case by (simp add: submodule_prefix_plain ball_Un)
next
  case (3 pfx features out)
  then show ?case by (simp add: submodule_prefix_plain ball_Un)
next
  case (10 pfx name m rest)
  then show ?case by (simp add: submodule_prefix_plain ball_Un)
qed simp_all

lemma digits_plain: "CHR ''_'' \<notin> set digits"
  by (simp add: digits_def)

lemma str_nat_plain: "CHR ''_'' \<notin> set (str_nat n)"
  using str_nat_digits[of n] digits_plain by blast

lemma units_from_plain: "plain_names_list (units_from op n j inc cs)"
  by (induction cs arbitrary: j inc)
     (simp_all add: str_nat_plain dark_convYxY_def dark_conv1x1_def dark_conv3x3_def DarkConv_init_def)

lemma plain_names_list_append:
  "plain_names_list (xs @ ys) = (plain_names_list xs \<and> plain_names_list ys)"
  by (induction xs) auto

lemma stages_from_plain: "plain_names_list (stages_from op len i inc css)"
  by (induction css arbitrary: i inc)
     (simp_all add: str_nat_plain units_from_plain plain_names_list_append)

lemma no_final_conv_in_plain: "CHR ''_'' \<notin> set name \<Longrightarrow> \<not> sublist ''final_conv'' name"
  using set_mono_sublist[of "''final_conv''" name] by auto

lemma sublist_final_conv: "sublist ''final_conv'' ''output.final_conv''"
  by (simp add: sublist_Cons_right)

lemma named_modules_DarkNet_init:
  "named_modules [] (DarkNet_init channels op aps ca inc nc) =
     ([], DarkNet_init channels op aps ca inc nc) #
     named_modules ''features'' (Sequential (stages_from op (length channels) 0 inc channels)) @
     [(''output'', Sequential
          ((''final_conv'', Conv2d (last (inc # concat channels)) nc 1 0 True) #
           (if ca then [(''final_activ'', LeakyReLU (1 / 10) True)] else []) @
           [(''final_pool'', AvgPool2d aps 1)])),
      (''output.final_conv'', Conv2d (last (inc # concat channels)) nc 1 0 True)] @
     (if ca then [(''output.final_activ'', LeakyReLU (1 / 10) True)] else []) @
     [(''output.final_pool'', AvgPool2d aps 1)]"
  by (simp add: DarkNet_init_eq submodule_prefix_def del: last.simps)

lemma features_names_plain:
  "\<forall>x\<in>set (named_modules ''features'' (Sequential (stages_from op len 0 inc channels))).
     CHR ''_'' \<notin> set (fst x)"
  by (rule named_modules_plain(1)) (simp_all add: stages_from_plain)

lemma conv_names:
  assumes "(name, m) \<in> set (named_modules [] (DarkNet_init channels op aps ca inc nc))"
  shows "(name = ''output.final_conv'' \<longrightarrow> m = Conv2d (last (inc # concat channels)) nc 1 0 True)
       \<and> (is_Conv2d m \<longrightarrow> sublist ''final_conv'' name = (name = ''output.final_conv''))"
proof -
  from assms consider
      (root) "name = []" "m = DarkNet_init channels op aps ca inc nc"
    | (feat) "(name, m) \<in> set (named_modules ''features'' (Sequential (stages_from op (length channels) 0 inc channels)))"
    | (out) "name = ''output''" "\<not> is_Conv2d m"
    | (conv) "name = ''output.final_conv''" "m = Conv2d (last (inc # concat channels)) nc 1 0 True"
    | (activ) "name = ''output.final_activ''" "m = LeakyReLU (1 / 10) True"
    | (pool) "name = ''output.final_pool''" "m = AvgPool2d aps 1"
    unfolding named_modules_DarkNet_init by (auto split: if_splits)
  then show ?thesis
  proof cases
    case root
    then show ?thesis by (simp add: DarkNet_init_eq)
  next
    case feat
    with features_names_plain have p: "CHR ''_'' \<notin> set name" by fastforce
    then have "name \<noteq> ''output.final_conv''" by auto
    with p show ?thesis by (simp add: no_final_conv_in_plain)
  next
    case out
    then show ?thesis by simp
  next
    case conv
    then show ?thesis by (simp add: sublist_final_conv)
  next
    case activ
    then show ?thesis by simp
  next
    case pool
    then show ?thesis by simp
  qed
qed

lemma final_conv_present:
  "(''output.final_conv'', Conv2d (last (inc # concat channels)) nc 1 0 True)
     \<in> set (named_modules [] (DarkNet_init channels op aps ca inc nc))"
  unfolding named_modules_DarkNet_init by simp

lemma init_module_mem:
  "x \<in> set (init_module (name, m)) \<longleftrightarrow>
     is_Conv2d m \<and>
     (x = (name, ''weight'', if sublist ''final_conv'' name then Normal_init 0 (1 / 100) else Kaiming_uniform)
      \<or> conv_bias m \<and> x = (name, ''bias'', Constant_init 0))"
  by (cases m) auto

lemma init_params_mem:
  "x \<in> set (init_params net) \<longleftrightarrow>
     (\<exists>name m. (name, m) \<in> set (named_modules [] net) \<and>
        is_Conv2d m \<and>
        (x = (name, ''weight'', if sublist ''final_conv'' name then Normal_init 0 (1 / 100) else Kaiming_uniform)
         \<or> conv_bias m \<and> x = (name, ''bias'', Constant_init 0)))"
proof -
  have "x \<in> set (init_params net) \<longleftrightarrow>
          (\<exists>nm\<in>set (named_modules [] net). x \<in> set (init_module nm))"
    by (simp add: init_params_def)
  also have "\<dots> \<longleftrightarrow> (\<exists>name m. (name, m) \<in> set (named_modules [] net) \<and> x \<in> set (init_module (name, m)))"
    by (simp add: Bex_def split_paired_Ex del: init_module.simps)
  finally show ?thesis by (simp only: init_module_mem)
qed

text \<open>
  Claim C7: the head's final convolution is the module at path \<open>output.final_conv\<close>;
  among the convolutions of the network the initialisation pass applies the normal
  initialiser (mean 0, standard deviation 0.01) to the weight of that one only, the uniform
  Kaiming initialiser to the weight of every other one, and the constant 0 to every bias
  that is present.
\<close>

theorem init_params_policy:
  "(''output.final_conv'', Conv2d (last (in_channels # concat channels)) num_classes 1 0 True)
      \<in> set (named_modules [] (DarkNet_init channels odd_pointwise avg_pool_size cls_activ in_channels num_classes))
   \<and> (\<forall>(name, m) \<in> set (named_modules [] (DarkNet_init channels odd_pointwise avg_pool_size cls_activ in_channels num_classes)).
        (name = ''output.final_conv'' \<longrightarrow>
           m = Conv2d (last (in_channels # concat channels)) num_classes 1 0 True) \<and>
        (is_Conv2d m \<longrightarrow>
           ((name, ''weight'', Normal_init 0 (1 / 100))
              \<in> set (init_params (DarkNet_init channels odd_pointwise avg_pool_size cls_activ in_channels num_classes)))
             = (name = ''output.final_conv'') \<and>
           ((name, ''weight'', Kaiming_uniform)
              \<in> set (init_params (DarkNet_init channels odd_pointwise avg_pool_size cls_activ in_channels num_classes)))
             = (name \<noteq> ''output.final_conv'') \<and>
           (conv_bias m \<longrightarrow>
              (name, ''bias'', Constant_init 0)
                \<in> set (init_params (DarkNet_init channels odd_pointwise avg_pool_size cls_activ in_channels num_classes)))))"
proof -
  let ?N = "DarkNet_init channels odd_pointwise avg_pool_size cls_activ in_channels num_classes"
  have sub: "sublist ''final_conv'' n = (n = ''output.final_conv'')"
    if "(n, m) \<in> set (named_modules [] ?N)" "is_Conv2d m" for n m
    using conv_names[OF that(1)] that(2) by simp
  have policy:
    "(name = ''output.final_conv'' \<longrightarrow>
           m = Conv2d (last (in_channels # concat channels)) num_classes 1 0 True) \<and>
        (is_Conv2d m \<longrightarrow>
           ((name, ''weight'', Normal_init 0 (1 / 100)) \<in> set (init_params ?N))
             = (name = ''output.final_conv'') \<and>
           ((name, ''weight'', Kaiming_uniform) \<in> set (init_params ?N))
             = (name \<noteq> ''output.final_conv'') \<and>
           (conv_bias m \<longrightarrow> (name, ''bias'', Constant_init 0) \<in> set (init_params ?N)))"
    if mem: "(name, m) \<in> set (named_modules [] ?N)" for name m
  proof (intro conjI impI)
    show "m = Conv2d (last (in_channels # concat channels)) num_classes 1 0 True"
      if "name = ''output.final_conv''"
      using conv_names[OF mem] that by simp
  next
    assume c: "is_Conv2d m"
    show "((name, ''weight'', Normal_init 0 (1 / 100)) \<in> set (init_params ?N))
             = (name = ''output.final_conv'')"
    proof
      assume "(name, ''weight'', Normal_init 0 (1 / 100)) \<in> set (init_params ?N)"
      then obtain m' where m': "(name, m') \<in> set (named_modules [] ?N)" "is_Conv2d m'"
          "sublist ''final_conv'' name"
        unfolding init_params_mem by (auto split: if_splits)
      with sub[OF m'(1,2)] show "name = ''output.final_conv''" by simp
    next
      assume "name = ''output.final_conv''"
      with sub[OF mem c] have "sublist ''final_conv'' name" by simp
      with mem c show "(name, ''weight'', Normal_init 0 (1 / 100)) \<in> set (init_params ?N)"
        unfolding init_params_mem by auto
    qed
    show "((name, ''weight'', Kaiming_uniform) \<in> set (init_params ?N))
             = (name \<noteq> ''output.final_conv'')"
    proof
      assume "(name, ''weight'', Kaiming_uniform) \<in> set (init_params ?N)"
      then obtain m' where m': "(name, m') \<in> set (named_modules [] ?N)" "is_Conv2d m'"
          "\<not> sublist ''final_conv'' name"
        unfolding init_params_mem by (auto split: if_splits)
      with sub[OF m'(1,2)] show "name \<noteq> ''output.final_conv''" by simp
    next
      assume "name \<noteq> ''output.final_conv''"
      with sub[OF mem c] have "\<not> sublist ''final_conv'' name" by simp
      with mem c show "(name, ''weight'', Kaiming_uniform) \<in> set (init_params ?N)"
        unfolding init_params_mem by auto
    qed
    show "(name, ''bias'', Constant_init 0) \<in> set (init_params ?N)" if "conv_bias m"
      using mem c that unfolding init_params_mem by auto
  qed
  show ?thesis
    using final_conv_present policy by (intro conjI ballI) (auto simp only: split_paired_all prod.case)
qed

theorem init_params_policy_witness:
  "(''features.stage1.unit1.conv'', Conv2d 3 16 3 1 False)
      \<in> set (named_modules [] (DarkNet_init [[16]] False 1 True 3 10)) \<and>
   is_Conv2d (Conv2d 3 16 3 1 False) \<and>
   (''features.stage1.unit1.conv'', ''weight'', Kaiming_uniform)
      \<in> set (init_params (DarkNet_init [[16]] False 1 True 3 10)) \<and>
   (''output.final_conv'', Conv2d 16 10 1 0 True)
      \<in> set (named_modules [] (DarkNet_init [[16]] False 1 True 3 10)) \<and>
   (''output.final_conv'', ''weight'', Normal_init 0 (1 / 100))
      \<in> set (init_params (DarkNet_init [[16]] False 1 True 3 10)) \<and>
   (''output.final_conv'', ''bias'', Constant_init 0)
      \<in> set (init_params (DarkNet_init [[16]] False 1 True 3 10))"
proof -
  let ?N = "DarkNet_init [[16]] False 1 True 3 10"
  note p = init_params_policy[of 3 "[[16]]" 10 False 1 True]
  have m1: "(''features.stage1.unit1.conv'', Conv2d 3 16 3 1 False) \<in> set (named_modules [] ?N)"
    by (simp add: DarkNet_init_eq submodule_prefix_def str_nat.simps digits_def
          dark_convYxY_def dark_conv3x3_def DarkConv_init_def)
  from p have m2: "(''output.final_conv'', Conv2d 16 10 1 0 True) \<in> set (named_modules [] ?N)"
    by simp
  from p m1 have k: "(''features.stage1.unit1.conv'', ''weight'', Kaiming_uniform) \<in> set (init_params ?N)"
    by fastforce
  from p m2 have n: "(''output.final_conv'', ''weight'', Normal_init 0 (1 / 100)) \<in> set (init_params ?N)"
    and b: "(''output.final_conv'', ''bias'', Constant_init 0) \<in> set (init_params ?N)"
    by fastforce+
  have c: "is_Conv2d (Conv2d 3 16 3 1 False)" by simp
  show ?thesis by (intro conjI) (fact m1 m2 k n b c)+
qed

section \<open>Parameter counts and output shapes of the three variants\<close>

lemmas build_simps =
  DarkNet_init_eq dark_convYxY_def dark_conv1x1_def dark_conv3x3_def DarkConv_init_def

lemmas shape_simps = conv2d_shape_def pool2d_shape_def window_def out_extent_def

lemma darknet_ref_eq:
  "darknet_ref = Inr (DarkNet_init [[16], [32], [64], [128], [256], [512], [1024]] False 3 True 3 1000)"
  by (simp add: darknet_ref_def get_darknet_cases kwarg_def)

lemma darknet_tiny_eq:
  "darknet_tiny = Inr (DarkNet_init [[16], [32], [16, 128, 16, 128], [32, 256, 32, 256],
                      [64, 512, 64, 512, 128]] True 14 False 3 1000)"
  by (simp add: darknet_tiny_def get_darknet_cases kwarg_def)

lemma darknet19_eq:
  "darknet19 = Inr (DarkNet_init [[32], [64], [128, 64, 128], [256, 128, 256],
                      [512, 256, 512, 256, 512], [1024, 512, 1024, 512, 1024]] False 7 False 3 1000)"
  by (simp add: darknet19_def get_darknet_cases kwarg_def)

text \<open>
  Claim C4: with the default \<open>in_channels = 3\<close> and \<open>num_classes = 1000\<close> the three
  variants have 7,319,416 (ref), 1,042,104 (tiny) and 20,842,376 (19) trainable parameters.
\<close>

theorem variant_weight_counts:
  "(\<exists>net. darknet_ref = Inr net \<and> weight_count net = 7319416) \<and>
   (\<exists>net. darknet_tiny = Inr net \<and> weight_count net = 1042104) \<and>
   (\<exists>net. darknet19 = Inr net \<and> weight_count net = 20842376)"
proof (intro conjI)
  show "\<exists>net. darknet_ref = Inr net \<and> weight_count net = 7319416"
    unfolding darknet_ref_eq by (simp add: build_simps weight_count_def parameters_def)
  show "\<exists>net. darknet_tiny = Inr net \<and> weight_count net = 1042104"
    unfolding darknet_tiny_eq by (simp add: build_simps weight_count_def parameters_def)
  show "\<exists>net. darknet19 = Inr net \<and> weight_count net = 20842376"
    unfolding darknet19_eq by (simp add: build_simps weight_count_def parameters_def)
qed

text \<open>
  Claim C8: for each variant built with default arguments, an input of shape
  (1, 3, 224, 224) leaves the feature stages with spatial extent 3, 14 and 7, which is the
  variant's \<open>avg_pool_size\<close>; the head then yields one location per class channel, and
  \<open>forward\<close> returns shape (1, 1000).
\<close>

theorem variant_output_shapes:
  "(\<exists>features head. darknet_ref = Inr (DarkNet features head) \<and>
      forward features [1, 3, 224, 224] = Inr [1, 1024, 3, 3] \<and>
      last (children_of head) = (''final_pool'', AvgPool2d 3 1) \<and>
      forward head [1, 1024, 3, 3] = Inr [1, 1000, 1, 1] \<and>
      forward (DarkNet features head) [1, 3, 224, 224] = Inr [1, 1000]) \<and>
   (\<exists>features head. darknet_tiny = Inr (DarkNet features head) \<and>
      forward features [1, 3, 224, 224] = Inr [1, 128, 14, 14] \<and>
      last (children_of head) = (''final_pool'', AvgPool2d 14 1) \<and>
      forward head [1, 128, 14, 14] = Inr [1, 1000, 1, 1] \<and>
      forward (DarkNet features head) [1, 3, 224, 224] = Inr [1, 1000]) \<and>
   (\<exists>features head. darknet19 = Inr (DarkNet features head) \<and>
      forward features [1, 3, 224, 224] = Inr [1, 1024, 7, 7] \<and>
      last (children_of head) = (''final_pool'', AvgPool2d 7 1) \<and>
      forward head [1, 1024, 7, 7] = Inr [1, 1000, 1, 1] \<and>
      forward (DarkNet features head) [1, 3, 224, 224] = Inr [1, 1000])"
proof (intro conjI)
  show "\<exists>features head. darknet_ref = Inr (DarkNet features head) \<and>
      forward features [1, 3, 224, 224] = Inr [1, 1024, 3, 3] \<and>
      last (children_of head) = (''final_pool'', AvgPool2d 3 1) \<and>
      forward head [1, 1024, 3, 3] = Inr [1, 1000, 1, 1] \<and>
      forward (DarkNet features head) [1, 3, 224, 224] = Inr [1, 1000]"
    unfolding darknet_ref_eq by (simp add: build_simps shape_simps)
  show "\<exists>features head. darknet_tiny = Inr (DarkNet features head) \<and>
      forward features [1, 3, 224, 224] = Inr [1, 128, 14, 14] \<and>
      last (children_of head) = (''final_pool'', AvgPool2d 14 1) \<and>
      forward head [1, 128, 14, 14] = Inr [1, 1000, 1, 1] \<and>
      forward (DarkNet features head) [1, 3, 224, 224] = Inr [1, 1000]"
    unfolding darknet_tiny_eq by (simp add: build_simps shape_simps)
  show "\<exists>features head. darknet19 = Inr (DarkNet features head) \<and>
      forward features [1, 3, 224, 224] = Inr [1, 1024, 7, 7] \<and>
      last (children_of head) = (''final_pool'', AvgPool2d 7 1) \<and>
      forward head [1, 1024, 7, 7] = Inr [1, 1000, 1, 1] \<and>
      forward (DarkNet features head) [1, 3, 224, 224] = Inr [1, 1000]"
    unfolding darknet19_eq by (simp add: build_simps shape_simps)
qed

section \<open>What the constructor checks\<close>

lemma DarkNet_init_int_closed:
  "DarkNet_init_int channels odd_pointwise avg_pool_size cls_activ in_channels num_classes =
     (if 0 \<le> in_channels \<and> 0 \<le> num_classes \<and> (\<forall>cs\<in>set channels. \<forall>c\<in>set cs. 0 \<le> c)
      then Inr (DarkNet
                 (Sequential
                    (stages_from odd_pointwise (length channels) 0 (nat in_channels)
                       (map (map nat) channels)))
                 (Sequential
                    ((''final_conv'',
                      Conv2d (nat (last (in_channels # concat channels))) (nat num_classes) 1 0 True) #
                     (if cls_activ then [(''final_activ'', LeakyReLU (1 / 10) True)] else []) @
                     [(''final_pool'', AvgPool2d avg_pool_size 1)])))
      else Inl RuntimeError)"
proof -
  have "last (nat in_channels # concat (map (map nat) channels)) =
          last (map nat (in_channels # concat channels))"
    by (simp only: list.map map_concat)
  also have "\<dots> = nat (last (in_channels # concat channels))"
    by (rule last_map) simp
  finally have l: "last (nat in_channels # concat (map (map nat) channels)) =
      nat (last (in_channels # concat channels))" .
  show ?thesis
    by (simp only: DarkNet_init_int_eq DarkNet_init_eq length_map l)
qed

lemma ref_forward_by_pool_size:
  "forward (DarkNet_init [[16], [32], [64], [128], [256], [512], [1024]] False avg_pool_size True 3 1000)
        [1, 3, 224, 224] =
       (if avg_pool_size \<le> 0 \<or> 3 < avg_pool_size then Inl ShapeError
        else Inr [1, 1000 * ((4 - nat avg_pool_size) * (4 - nat avg_pool_size))])"
proof -
  consider "avg_pool_size \<le> 0" | "avg_pool_size = 1" | "avg_pool_size = 2" | "avg_pool_size = 3"
    | "3 < avg_pool_size"
    by linarith
  then show ?thesis
    by cases (simp_all add: build_simps shape_simps)
qed

text \<open>
  Claim C10, as the code has it: the constructor has no check of its own. It raises
  exactly when \<open>in_channels\<close>, \<open>num_classes\<close> or a channel count is negative, which is
  the \<open>RuntimeError\<close> of the framework's layer constructor; in every other case, for
  every \<open>odd_pointwise\<close>, \<open>cls_activ\<close> and \<open>avg_pool_size\<close>, it returns the network
  with one stage per row of the channel table, the units and poolings of
  \<open>stages_from\<close>, and a head that ends with an average pooling of the given size,
  stored as it was passed. A size that does not match the remaining extent shows only in
  \<open>forward\<close>: on the \<open>ref\<close> channel table the network is built for every size, and on a
  224x224 input sizes below 1 and above 3 fail in the forward pass, and sizes 1 and 2
  return a longer vector.
\<close>

theorem constructor_rejects_negative_sizes_only:
  "DarkNet_init_int channels odd_pointwise avg_pool_size cls_activ in_channels num_classes =
     (if 0 \<le> in_channels \<and> 0 \<le> num_classes \<and> (\<forall>cs\<in>set channels. \<forall>c\<in>set cs. 0 \<le> c)
      then Inr (DarkNet
                 (Sequential
                    (stages_from odd_pointwise (length channels) 0 (nat in_channels)
                       (map (map nat) channels)))
                 (Sequential
                    ((''final_conv'',
                      Conv2d (nat (last (in_channels # concat channels))) (nat num_classes) 1 0 True) #
                     (if cls_activ then [(''final_activ'', LeakyReLU (1 / 10) True)] else []) @
                     [(''final_pool'', AvgPool2d avg_pool_size 1)])))
      else Inl RuntimeError)
   \<and> (\<exists>net. DarkNet_init_int [[16], [32], [64], [128], [256], [512], [1024]] False avg_pool_size
               True 3 1000 = Inr net \<and>
        forward net [1, 3, 224, 224] =
          (if avg_pool_size \<le> 0 \<or> 3 < avg_pool_size then Inl ShapeError
           else Inr [1, 1000 * ((4 - nat avg_pool_size) * (4 - nat avg_pool_size))]))"
proof (rule conjI)
  have "DarkNet_init_int [[16], [32], [64], [128], [256], [512], [1024]] False avg_pool_size True 3 1000 =
      Inr (DarkNet_init [[16], [32], [64], [128], [256], [512], [1024]] False avg_pool_size True 3 1000)"
    by (simp add: DarkNet_init_int_eq)
  with ref_forward_by_pool_size
  show "\<exists>net. DarkNet_init_int [[16], [32], [64], [128], [256], [512], [1024]] False avg_pool_size
               True 3 1000 = Inr net \<and>
        forward net [1, 3, 224, 224] =
          (if avg_pool_size \<le> 0 \<or> 3 < avg_pool_size then Inl ShapeError
           else Inr [1, 1000 * ((4 - nat avg_pool_size) * (4 - nat avg_pool_size))])"
    by (intro exI conjI) assumption+
qed (rule DarkNet_init_int_closed)

theorem constructor_rejects_negative_sizes_only_witness:
  "DarkNet_init_int [[16], [32, 64]] True 0 False 3 10 =
     Inr (DarkNet_init [[16], [32, 64]] True 0 False 3 10) \<and>
   DarkNet_init_int [[16], [32, - 64]] True 0 False 3 10 = Inl RuntimeError \<and>
   (\<exists>net. DarkNet_init_int [[16], [32], [64], [128], [256], [512], [1024]] False 2 True 3 1000 = Inr net \<and>
      forward net [1, 3, 224, 224] = Inr [1, 4000])"
  using constructor_rejects_negative_sizes_only[of "[[16], [32, 64]]" True 0 False 3 10]
        constructor_rejects_negative_sizes_only[of "[[16], [32, - 64]]" True 0 False 3 10]
        constructor_rejects_negative_sizes_only[of "[[16]]" False 2 True 3 10]
  by (simp add: DarkNet_init_eq)

text \<open>
  Construction does not complete for every configuration: on the \<open>ref\<close> channel table a
  negative \<open>in_channels\<close> and a negative \<open>num_classes\<close> raise, and so does a negative
  channel count.
\<close>

theorem constructor_raises_counterexample:
  "DarkNet_init_int [[16], [32], [64], [128], [256], [512], [1024]] False 3 True (- 1) 1000 =
     Inl RuntimeError \<and>
   DarkNet_init_int [[16], [32], [64], [128], [256], [512], [1024]] False 3 True 3 (- 1000) =
     Inl RuntimeError \<and>
   DarkNet_init_int [[16], [- 32]] False 3 True 3 1000 = Inl RuntimeError"
  by (simp add: DarkNet_init_int_def dark_convYxY_int_def dark_conv3x3_int_def
        dark_conv1x1_int_def DarkConv_init_int_def Conv2d_int_def BatchNorm2d_int_def
        add_module_def str_nat.simps digits_def)

end
